theory Spec2Isabelle
  imports Main "HOL-Library.AList"
begin

section \<open>The contact form helpers of ckanext-contact (routes/_helpers.py)\<close>

text \<open>
  The module has three functions: \<open>validate\<close>, \<open>build_subject\<close> and \<open>submit\<close>.
  They read the CKAN configuration, call the recaptcha check, the template renderer,
  the \<open>package_show\<close> action, the \<open>IContact\<close> plugins and the mailer, and read the
  wall clock. None of these is defined in the module, so each is a field of an
  environment record; what the module's own code does with their results is modelled
  line by line. Effects that a caller can observe (clock reads, log lines, recaptcha
  calls, delivery attempts) are recorded in a \<open>world\<close> that is passed through.
\<close>

subsection \<open>Values, exceptions, dictionaries\<close>

text \<open>Python values that are not always strings: configuration defaults and dataset fields.\<close>

datatype pyval = PyNone | PyBool bool | PyStr string

text \<open>Python truthiness, as \<open>if pkg["data_contact_email"]:\<close> uses it.\<close>

fun truthy :: "pyval \<Rightarrow> bool" where
  "truthy PyNone = False"
| "truthy (PyBool b) = b"
| "truthy (PyStr s) = (s \<noteq> [])"

text \<open>
  The exceptions the module meets. \<open>SocketError\<close> is \<open>socket.error\<close>;
  \<open>OtherException\<close> is any exception the module has no handler for.
\<close>

datatype exn =
    KeyError string
  | RecaptchaError string
  | MailerException string
  | SocketError string
  | ValueError string
  | OtherException string

text \<open>Sequencing of a computation that may raise: the first exception wins.\<close>

definition ebind :: "exn + 'a \<Rightarrow> ('a \<Rightarrow> exn + 'b) \<Rightarrow> exn + 'b" where
  "ebind m f = (case m of Inl e \<Rightarrow> Inl e | Inr x \<Rightarrow> f x)"

type_synonym data_dict = "string \<rightharpoonup> string"

text \<open>\<open>d[k]\<close>: raises \<open>KeyError\<close> on a missing key.\<close>

definition getitem :: "(string \<rightharpoonup> 'v) \<Rightarrow> string \<Rightarrow> exn + 'v" where
  "getitem d k = (case d k of None \<Rightarrow> Inl (KeyError k) | Some v \<Rightarrow> Inr v)"

text \<open>\<open>sep.join(parts)\<close>.\<close>

fun join :: "string \<Rightarrow> string list \<Rightarrow> string" where
  "join sep [] = []"
| "join sep [x] = x"
| "join sep (x # y # ys) = x @ sep @ join sep (y # ys)"

subsection \<open>The outgoing message, the outcome, the collaborators\<close>

record mail_dict =
  recipient_email :: pyval
  recipient_name :: pyval
  subject :: string
  body :: string
  body_html :: string
  headers :: "string \<rightharpoonup> pyval"

text \<open>The dict that \<open>submit\<close> returns. \<open>errors\<close> and \<open>error_summary\<close> keep insertion order.\<close>

record outcome =
  success :: bool
  data :: data_dict
  errors :: "(string \<times> string list) list"
  error_summary :: "(string \<times> string) list"
  recaptcha_error :: "string option"

record world =
  ticks :: nat
  log_lines :: "string list"
  captcha_calls :: "(string option \<times> string option) list"
  deliveries :: "mail_dict list"

text \<open>
  \<open>config\<close> is \<open>toolkit.config\<close>, \<open>translate\<close> is \<open>toolkit._\<close>, \<open>clock n\<close> is the
  formatted result of the \<open>n\<close>-th call of \<open>datetime.now(timezone.utc).strftime(...)\<close>,
  \<open>package_show\<close> is \<open>toolkit.get_action('package_show')\<close> applied to an id, and a plugin
  is the \<open>mail_alter\<close> of one \<open>IContact\<close> implementation, which may change both dicts in
  place.
\<close>

record env =
  config :: "string \<rightharpoonup> string"
  translate :: "string \<Rightarrow> string"
  asbool :: "pyval \<Rightarrow> exn + bool"
  clock :: "nat \<Rightarrow> string"
  check_recaptcha :: "string option \<Rightarrow> string option \<Rightarrow> exn + unit"
  render_template :: "string \<Rightarrow> (string \<times> pyval) list \<Rightarrow> exn + string"
  escape :: "string \<Rightarrow> string"
  url_for :: "string \<Rightarrow> string"
  package_show :: "string \<Rightarrow> exn + (string \<rightharpoonup> pyval)"
  plugins :: "(mail_dict \<Rightarrow> data_dict \<Rightarrow> exn + (mail_dict \<times> data_dict)) list"
  mail_recipient :: "mail_dict \<Rightarrow> exn + unit"

text \<open>\<open>toolkit.config.get(key)\<close> and \<open>toolkit.config.get(key, default)\<close>.\<close>

definition config_get :: "env \<Rightarrow> string \<Rightarrow> pyval" where
  "config_get env k = (case config env k of None \<Rightarrow> PyNone | Some v \<Rightarrow> PyStr v)"

definition config_get_default :: "env \<Rightarrow> string \<Rightarrow> pyval \<Rightarrow> pyval" where
  "config_get_default env k d = (case config env k of None \<Rightarrow> d | Some v \<Rightarrow> PyStr v)"

text \<open>\<open>toolkit.config.get(key, default)\<close> where the default is a string.\<close>

definition config_get_str :: "env \<Rightarrow> string \<Rightarrow> string \<Rightarrow> string" where
  "config_get_str env k d = (case config env k of None \<Rightarrow> d | Some v \<Rightarrow> v)"

text \<open>\<open>str(v)\<close>, as an f-string formats a value.\<close>

fun py_str :: "pyval \<Rightarrow> string" where
  "py_str PyNone = ''None''"
| "py_str (PyBool b) = (if b then ''True'' else ''False'')"
| "py_str (PyStr s) = s"

subsection \<open>validate (lines 25 to 54)\<close>

text \<open>One pass of the loop over the required fields (lines 39 to 42).\<close>

definition check_field ::
  "data_dict \<Rightarrow> string \<Rightarrow>
   (string \<times> string list) list \<times> (string \<times> string) list \<Rightarrow>
   (string \<times> string list) list \<times> (string \<times> string) list" where
  "check_field data_dict field acc =
     (let v = data_dict field in
      if v = None \<or> v = Some []
      then (AList.update field [''Missing Value''] (fst acc),
            AList.update field ''Missing value'' (snd acc))
      else acc)"

definition required_fields :: "string list" where
  "required_fields = [''email'', ''name'', ''content'']"

definition recaptcha_message :: string where
  "recaptcha_message = ''Recaptcha check failed, please try again.''"

definition validate ::
  "env \<Rightarrow> world \<Rightarrow> data_dict \<Rightarrow>
   exn + (((string \<times> string list) list \<times> (string \<times> string) list \<times> string option) \<times> world)" where
  "validate env w data_dict =
     (let acc = foldl (\<lambda>a field. check_field data_dict field a) ([], []) required_fields;
          errs = fst acc;
          summ = snd acc
      in if errs = []
         then
           (let expected_action = config env ''ckanext.contact.recaptcha_v3_action'';
                token = data_dict ''g-recaptcha-response'';
                w1 = w\<lparr>captcha_calls := captcha_calls w @ [(token, expected_action)]\<rparr>
            in case check_recaptcha env token expected_action of
                 Inr u \<Rightarrow> Inr ((errs, summ, None), w1)
               | Inl (RecaptchaError e) \<Rightarrow>
                   Inr ((errs, summ, Some (translate env recaptcha_message)),
                        w1\<lparr>log_lines := log_lines w1 @
                          [''Recaptcha failed due to '' @ [CHR 0x22] @ e @ [CHR 0x22] @ '' : '' @
                           py_str (case expected_action of None \<Rightarrow> PyNone | Some a \<Rightarrow> PyStr a)]\<rparr>)
               | Inl e \<Rightarrow> Inl e)
         else Inr ((errs, summ, None), w))"

subsection \<open>build_subject (lines 57 to 71)\<close>

definition build_subject ::
  "env \<Rightarrow> world \<Rightarrow> string \<Rightarrow> string \<Rightarrow> string \<Rightarrow> bool \<Rightarrow> exn + (string \<times> world)" where
  "build_subject env w form_variant contact_type subject_default timestamp_default =
     (let subj0 = config_get_str env (''ckanext.'' @ form_variant @ ''.subject'')
                    (translate env subject_default);
          subj1 = (if form_variant = ''contact'' then subj0 @ '' : '' @ contact_type else subj0)
      in ebind (asbool env (config_get_default env ''ckanext.contact.add_timestamp_to_subject''
                              (PyBool timestamp_default)))
           (\<lambda>flag.
              if flag
              then (let timestamp = clock env (ticks w)
                    in Inr (subj1 @ '' ['' @ timestamp @ '']'', w\<lparr>ticks := Suc (ticks w)\<rparr>))
              else Inr (subj1, w)))"

text \<open>The call \<open>build_subject(form_variant, contact_type)\<close> of \<open>submit\<close>, with the default arguments.\<close>

definition build_subject2 :: "env \<Rightarrow> world \<Rightarrow> string \<Rightarrow> string \<Rightarrow> exn + (string \<times> world)" where
  "build_subject2 env w form_variant contact_type =
     build_subject env w form_variant contact_type ''Contact from visitor'' False"

subsection \<open>submit (lines 74 to 192)\<close>

text \<open>Lines 104 to 107: the dataset URL line, or the key set to the empty string.\<close>

definition add_pkg_url :: "data_dict \<times> string list \<Rightarrow> data_dict \<times> string list" where
  "add_pkg_url st =
     (case fst st ''pkg-url'' of
        Some u \<Rightarrow>
          (if u \<noteq> [] then (fst st, snd st @ [''  Dataset URL: '' @ u])
           else ((fst st)(''pkg-url'' \<mapsto> []), snd st))
      | None \<Rightarrow> ((fst st)(''pkg-url'' \<mapsto> []), snd st))"

text \<open>Lines 109 to 111: the default contact type, with its body line.\<close>

definition add_contact_type :: "data_dict \<times> string list \<Rightarrow> data_dict \<times> string list" where
  "add_contact_type st =
     (if fst st ''contact_type'' = None \<or> fst st ''contact_type'' = Some []
      then ((fst st)(''contact_type'' \<mapsto> ''Question''),
            snd st @ [''  Contact Type: '' @ ''Question''])
      else st)"

text \<open>Lines 115 to 120: one of the three \<open>N/A\<close> defaults.\<close>

definition default_na :: "string \<Rightarrow> data_dict \<Rightarrow> data_dict" where
  "default_na k d = (if d k = None \<or> d k = Some [] then d(k \<mapsto> ''N/A'') else d)"

text \<open>Lines 113 to 135: the branch on the form variant.\<close>

definition variant_fields :: "data_dict \<times> string list \<Rightarrow> exn + (data_dict \<times> string list)" where
  "variant_fields st =
     ebind (getitem (fst st) ''form_variant'') (\<lambda>fv.
       if fv = ''suggest_dataset''
       then
         (let d1 = default_na ''url'' (default_na ''maintainer'' (default_na ''resource'' (fst st)))
          in ebind (getitem d1 ''contact_type'') (\<lambda>ct.
             let d2 = (if ct = ''Both'' then d1(''contact_type'' \<mapsto> ''Data and Application'') else d1)
             in ebind (getitem d2 ''resource'') (\<lambda>r.
                ebind (getitem d2 ''maintainer'') (\<lambda>m.
                ebind (getitem d2 ''url'') (\<lambda>u.
                  Inr (d2, snd st @
                    [''  Title of Resource: '' @ r,
                     ''  Who owns or maintains this resource? '' @ m,
                     ''  Link: '' @ u]))))))
       else Inr ((fst st)(''resource'' \<mapsto> [], ''maintainer'' \<mapsto> [], ''url'' \<mapsto> []), snd st))"

text \<open>Lines 96 to 135: the normalised submission and the parts of the plain-text body.\<close>

definition normalise :: "data_dict \<Rightarrow> exn + (data_dict \<times> string list)" where
  "normalise data_dict =
     ebind (getitem data_dict ''form_variant'') (\<lambda>fv0.
       let d1 = (if fv0 = [] then data_dict(''form_variant'' \<mapsto> ''contact'') else data_dict)
       in ebind (getitem d1 ''content'') (\<lambda>content.
          ebind (getitem d1 ''name'') (\<lambda>name.
          ebind (getitem d1 ''email'') (\<lambda>email.
            variant_fields (add_contact_type (add_pkg_url
              (d1, [content @ [CHR 0x0A], ''Sent by:'', ''  Name: '' @ name,
                    ''  Email: '' @ email])))))))"

text \<open>Lines 137 to 166: the \<open>mail_dict\<close> literal, its entries evaluated in order.\<close>

definition compose :: "env \<Rightarrow> world \<Rightarrow> data_dict \<Rightarrow> string list \<Rightarrow> exn + (mail_dict \<times> world)" where
  "compose env w d body_parts =
     (let to_email = config_get_default env ''ckanext.contact.mail_to'' (config_get env ''email_to'');
          to_name = config_get_default env ''ckanext.contact.recipient_name''
                      (config_get env ''ckan.site_title'')
      in ebind (getitem d ''form_variant'') (\<lambda>fv.
         ebind (getitem d ''contact_type'') (\<lambda>ct.
         ebind (build_subject2 env w fv ct) (\<lambda>(subj, w1).
         ebind (getitem d ''name'') (\<lambda>name.
         ebind (getitem d ''email'') (\<lambda>email.
         ebind (getitem d ''resource'') (\<lambda>resource.
         ebind (getitem d ''maintainer'') (\<lambda>maintainer.
         ebind (getitem d ''url'') (\<lambda>url.
         ebind (getitem d ''pkg-url'') (\<lambda>pkg_url.
         ebind (getitem d ''content'') (\<lambda>content.
         let timestamp = clock env (ticks w1);
             w2 = w1\<lparr>ticks := Suc (ticks w1)\<rparr>
         in ebind (build_subject2 env w2 fv ct) (\<lambda>(subj_html, w3).
            ebind (render_template env (''emails/'' @ fv @ ''.html'')
                     [(''name'', PyStr name), (''email'', PyStr email),
                      (''contact_type'', PyStr ct), (''resource'', PyStr resource),
                      (''maintainer'', PyStr maintainer), (''url'', PyStr url),
                      (''pkg_url'', PyStr pkg_url), (''message'', PyStr (escape env content)),
                      (''timestamp'', PyStr timestamp),
                      (''site_title'', config_get env ''ckan.site_title''),
                      (''site_url'', PyStr (url_for env ''home.index'')),
                      (''subject'', PyStr subj_html)]) (\<lambda>html.
            Inr (\<lparr>recipient_email = to_email, recipient_name = to_name, subject = subj,
                  body = join [CHR 0x0A] body_parts, body_html = html,
                  headers = [''Reply-to'' \<mapsto> PyStr email]\<rparr>, w3))))))))))))))"

text \<open>Lines 168 to 175: the dataset contact as recipient, the default recipient as cc.\<close>

definition reroute :: "env \<Rightarrow> mail_dict \<Rightarrow> data_dict \<Rightarrow> exn + (mail_dict \<times> data_dict)" where
  "reroute env mail d =
     (let d1 = (if d ''contact_dest'' = None then d(''contact_dest'' \<mapsto> ''data-hub-support'') else d)
      in ebind (getitem d1 ''contact_dest'') (\<lambda>dest.
         if dest \<noteq> ''data-hub-support'' \<and> d1 ''pkg-id'' \<noteq> None \<and> d1 ''pkg-id'' \<noteq> Some []
         then
           ebind (getitem d1 ''pkg-id'') (\<lambda>pid.
           ebind (package_show env pid) (\<lambda>pkg.
           ebind (getitem pkg ''data_contact_email'') (\<lambda>contact.
             if truthy contact
             then Inr (mail\<lparr>headers := (headers mail)(''cc'' \<mapsto> recipient_email mail),
                            recipient_email := contact\<rparr>, d1)
             else Inr (mail, d1))))
         else Inr (mail, d1)))"

text \<open>Lines 178 and 179: every plugin in turn; an exception of a plugin is not caught.\<close>

fun mail_alter_all ::
  "(mail_dict \<Rightarrow> data_dict \<Rightarrow> exn + (mail_dict \<times> data_dict)) list \<Rightarrow>
   mail_dict \<Rightarrow> data_dict \<Rightarrow> exn + (mail_dict \<times> data_dict)" where
  "mail_alter_all [] mail d = Inr (mail, d)"
| "mail_alter_all (p # ps) mail d =
     ebind (p mail d) (\<lambda>(mail1, d1). mail_alter_all ps mail1 d1)"

text \<open>Lines 181 to 184: one call of the mailer; the result is \<open>email_success\<close>.\<close>

definition deliver :: "env \<Rightarrow> world \<Rightarrow> mail_dict \<Rightarrow> exn + (bool \<times> world)" where
  "deliver env w mail =
     (let w1 = w\<lparr>deliveries := deliveries w @ [mail]\<rparr>
      in case mail_recipient env mail of
           Inr u \<Rightarrow> Inr (True, w1)
         | Inl (MailerException m) \<Rightarrow> Inr (False, w1)
         | Inl (SocketError m) \<Rightarrow> Inr (False, w1)
         | Inl e \<Rightarrow> Inl e)"

text \<open>Lines 96 to 179: everything between validation and the call of the mailer.\<close>

definition prepare :: "env \<Rightarrow> world \<Rightarrow> data_dict \<Rightarrow> exn + (mail_dict \<times> data_dict \<times> world)" where
  "prepare env w data_dict =
     ebind (normalise data_dict) (\<lambda>(d1, body_parts).
     ebind (compose env w d1 body_parts) (\<lambda>(mail, w1).
     ebind (reroute env mail d1) (\<lambda>(mail1, d2).
     ebind (mail_alter_all (plugins env) mail1 d2) (\<lambda>(mail2, d3).
       Inr (mail2, d3, w1)))))"

text \<open>
  \<open>submit\<close>, from the parsed request parameters \<open>data_dict\<close> (line 85 is the request
  parser's work) to the returned dict.
\<close>

definition submit :: "env \<Rightarrow> world \<Rightarrow> data_dict \<Rightarrow> exn + (outcome \<times> world)" where
  "submit env w data_dict =
     ebind (validate env w data_dict) (\<lambda>((errs, summ, rerr), w1).
       if length errs = 0 \<and> rerr = None
       then
         ebind (prepare env w1 data_dict) (\<lambda>(mail, d, w2).
         ebind (deliver env w2 mail) (\<lambda>(email_success, w3).
           Inr (\<lparr>success = (rerr = None \<and> length errs = 0 \<and> email_success), data = d,
                 errors = errs, error_summary = summ, recaptcha_error = rerr\<rparr>, w3)))
       else
         Inr (\<lparr>success = (rerr = None \<and> length errs = 0 \<and> True), data = data_dict,
               errors = errs, error_summary = summ, recaptcha_error = rerr\<rparr>, w1))"

subsection \<open>A concrete deployment, for evaluating the functions\<close>

text \<open>
  A small configuration with a default recipient and a site title, the identity as
  translation, a recaptcha check that accepts, one dataset \<open>ds1\<close> with a data contact,
  no plugins and a mailer that accepts.
\<close>

definition example_asbool :: "pyval \<Rightarrow> exn + bool" where
  "example_asbool v =
     (case v of
        PyNone \<Rightarrow> Inr False
      | PyBool b \<Rightarrow> Inr b
      | PyStr s \<Rightarrow>
          (if s \<in> set [''true'', ''yes'', ''on'', ''1''] then Inr True
           else if s \<in> set [''false'', ''no'', ''off'', ''0''] then Inr False
           else Inl (ValueError s)))"

definition example_env :: env where
  "example_env =
     \<lparr>config = [''email_to'' \<mapsto> ''admin@example.org'', ''ckan.site_title'' \<mapsto> ''Data Hub''],
      translate = (\<lambda>s. s),
      asbool = example_asbool,
      clock = (\<lambda>n. if n = 0 then ''2024-05-01 10:00:00 UTC'' else ''2024-05-01 10:00:01 UTC''),
      check_recaptcha = (\<lambda>token action. Inr ()),
      render_template = (\<lambda>name kwargs. Inr (''<p>'' @ name @ ''</p>'')),
      escape = (\<lambda>s. s),
      url_for = (\<lambda>endpoint. ''https://data.example.org/''),
      package_show = (\<lambda>pid. if pid = ''ds1''
                            then Inr [''data_contact_email'' \<mapsto> PyStr ''owner@example.org'']
                            else Inl (OtherException ''NotFound'')),
      plugins = [],
      mail_recipient = (\<lambda>mail. Inr ())\<rparr>"

definition world0 :: world where
  "world0 = \<lparr>ticks = 0, log_lines = [], captcha_calls = [], deliveries = []\<rparr>"

definition example_form :: data_dict where
  "example_form = [''email'' \<mapsto> ''a@b.com'', ''name'' \<mapsto> ''A'', ''content'' \<mapsto> ''Hi'',
                   ''form_variant'' \<mapsto> []]"


text \<open>The same deployment with the timestamp switched on.\<close>

definition timestamp_env :: env where
  "timestamp_env =
     example_env\<lparr>config := (config example_env)
                   (''ckanext.contact.add_timestamp_to_subject'' \<mapsto> ''true'')\<rparr>"

text \<open>The same deployment with subject lines configured under three different keys.\<close>

definition subject_key_env :: env where
  "subject_key_env =
     example_env\<lparr>config := (config example_env)
                   (''contact.suggest_dataset.subject'' \<mapsto> ''Dataset suggestion'',
                    ''ckanext.contact.suggest_dataset.subject'' \<mapsto> ''Dataset suggestion'',
                    ''ckanext.suggest_dataset.subject'' \<mapsto> ''New dataset'')\<rparr>"

text \<open>A dataset suggestion with a contact type, a link and an empty maintainer.\<close>

definition suggestion_form :: data_dict where
  "suggestion_form =
     example_form(''form_variant'' \<mapsto> ''suggest_dataset'', ''contact_type'' \<mapsto> ''Both'',
                  ''url'' \<mapsto> ''https://example.org/x'', ''maintainer'' \<mapsto> [])"


text \<open>The same deployment with a mailer that cannot reach its server.\<close>

definition failing_mail_env :: env where
  "failing_mail_env =
     example_env\<lparr>mail_recipient := (\<lambda>mail. Inl (MailerException ''connection refused''))\<rparr>"

section \<open>Properties\<close>

subsection \<open>Sequencing and lookups\<close>

lemma ebind_Inl [simp]: "ebind (Inl e) f = Inl e"
  by (simp add: ebind_def)

lemma ebind_Inr [simp]: "ebind (Inr x) f = f x"
  by (simp add: ebind_def)

lemma getitem_Some: "d k = Some v \<Longrightarrow> getitem d k = Inr v"
  by (simp add: getitem_def)

lemma getitem_None: "d k = None \<Longrightarrow> getitem d k = Inl (KeyError k)"
  by (simp add: getitem_def)

lemma check_fields_result:
  "foldl (\<lambda>a field. check_field d field a) ([], []) required_fields =
     (map (\<lambda>f. (f, [''Missing Value''])) (filter (\<lambda>f. d f = None \<or> d f = Some []) required_fields),
      map (\<lambda>f. (f, ''Missing value'')) (filter (\<lambda>f. d f = None \<or> d f = Some []) required_fields))"
  by (simp add: required_fields_def check_field_def Let_def)

lemma validate_missing:
  assumes "filter (\<lambda>f. d f = None \<or> d f = Some []) required_fields \<noteq> []"
  shows "validate env w d =
     Inr ((map (\<lambda>f. (f, [''Missing Value''])) (filter (\<lambda>f. d f = None \<or> d f = Some []) required_fields),
           map (\<lambda>f. (f, ''Missing value'')) (filter (\<lambda>f. d f = None \<or> d f = Some []) required_fields),
           None), w)"
  using assms unfolding validate_def check_fields_result by (simp add: Let_def)

subsection \<open>Missing required fields\<close>

text \<open>
  C1: when one of \<open>email\<close>, \<open>name\<close>, \<open>content\<close> is absent or the empty string,
  \<open>submit\<close> returns an outcome whose \<open>errors\<close> has exactly the missing fields, each with
  \<open>['Missing Value']\<close>, whose \<open>recaptcha_error\<close> is \<open>None\<close> and whose \<open>success\<close> is
  \<open>False\<close>. The world is returned as it was: the recaptcha check was not called and no
  delivery was attempted.
\<close>

theorem submit_missing_required:
  assumes "\<exists>f \<in> set [''email'', ''name'', ''content'']. data_dict f = None \<or> data_dict f = Some []"
  shows "\<exists>out. submit env w data_dict = Inr (out, w) \<and>
           errors out = map (\<lambda>f. (f, [''Missing Value'']))
                          (filter (\<lambda>f. data_dict f = None \<or> data_dict f = Some [])
                             [''email'', ''name'', ''content'']) \<and>
           recaptcha_error out = None \<and> success out = False"
proof -
  let ?miss = "filter (\<lambda>f. data_dict f = None \<or> data_dict f = Some []) required_fields"
  from assms have ne: "?miss \<noteq> []"
    unfolding required_fields_def filter_empty_conv by blast
  have "submit env w data_dict =
          Inr (\<lparr>success = False, data = data_dict,
                errors = map (\<lambda>f. (f, [''Missing Value''])) ?miss,
                error_summary = map (\<lambda>f. (f, ''Missing value'')) ?miss,
                recaptcha_error = None\<rparr>, w)"
    using ne by (simp add: submit_def validate_missing [OF ne])
  then show ?thesis
    by (simp add: required_fields_def)
qed

theorem submit_missing_required_witness:
  "(\<exists>f \<in> set [''email'', ''name'', ''content''].
      (example_form(''name'' := None, ''content'' \<mapsto> [])) f = None \<or>
      (example_form(''name'' := None, ''content'' \<mapsto> [])) f = Some []) \<and>
   (\<exists>out. submit example_env world0 (example_form(''name'' := None, ''content'' \<mapsto> [])) = Inr (out, world0) \<and>
      errors out = [(''name'', [''Missing Value'']), (''content'', [''Missing Value''])] \<and>
      recaptcha_error out = None \<and> success out = False)"
  using submit_missing_required [of "example_form(''name'' := None, ''content'' \<mapsto> [])" example_env world0]
  by (simp add: example_form_def)

subsection \<open>A rejected recaptcha\<close>

lemma check_fields_present:
  assumes "d ''email'' = Some e" "e \<noteq> []" "d ''name'' = Some n" "n \<noteq> []"
    "d ''content'' = Some c" "c \<noteq> []"
  shows "foldl (\<lambda>a field. check_field d field a) ([], []) required_fields = ([], [])"
  using assms by (simp add: required_fields_def check_field_def)




subsection \<open>The subject line\<close>

text \<open>
  C6: \<open>build_subject\<close> appends \<open>' : <contact_type>'\<close> exactly when the form variant is
  \<open>contact\<close>, and appends the bracketed timestamp exactly when \<open>asbool\<close> of the
  \<open>add_timestamp_to_subject\<close> setting (or of \<open>timestamp_default\<close> when it is unset) is true.
\<close>

theorem build_subject_suffixes:
  assumes "asbool env (config_get_default env ''ckanext.contact.add_timestamp_to_subject''
             (PyBool timestamp_default)) = Inr flag"
  shows "build_subject env w form_variant contact_type subject_default timestamp_default =
           Inr (config_get_str env (''ckanext.'' @ form_variant @ ''.subject'')
                  (translate env subject_default) @
                (if form_variant = ''contact'' then '' : '' @ contact_type else []) @
                (if flag then '' ['' @ clock env (ticks w) @ '']'' else []),
                if flag then w\<lparr>ticks := Suc (ticks w)\<rparr> else w)"
  using assms by (simp add: build_subject_def Let_def)

theorem build_subject_suffixes_witness:
  "asbool timestamp_env (config_get_default timestamp_env
      ''ckanext.contact.add_timestamp_to_subject'' (PyBool False)) = Inr True \<and>
   build_subject timestamp_env world0 ''contact'' ''Issue'' ''Contact from visitor'' False =
     Inr (''Contact from visitor : Issue [2024-05-01 10:00:00 UTC]'', world0\<lparr>ticks := 1\<rparr>) \<and>
   asbool example_env (config_get_default example_env
      ''ckanext.contact.add_timestamp_to_subject'' (PyBool False)) = Inr False \<and>
   build_subject example_env world0 ''suggest_dataset'' ''Issue'' ''Contact from visitor'' False =
     Inr (''Contact from visitor'', world0)"
  using build_subject_suffixes [of timestamp_env False True world0 "''contact''" "''Issue''"
      "''Contact from visitor''"]
    build_subject_suffixes [of example_env False False world0 "''suggest_dataset''" "''Issue''"
      "''Contact from visitor''"]
  by (simp add: timestamp_env_def example_env_def example_asbool_def config_get_default_def
      config_get_str_def world0_def)

text \<open>
  C7, as stated, fails: a subject configured under \<open>contact.<v>.subject\<close> (or under
  \<open>ckanext.contact.<v>.subject\<close>) is not read; the key is \<open>ckanext.<v>.subject\<close>.
\<close>

theorem build_subject_spec_key_unread:
  "config subject_key_env ''contact.suggest_dataset.subject'' = Some ''Dataset suggestion'' \<and>
   config subject_key_env ''ckanext.contact.suggest_dataset.subject'' = Some ''Dataset suggestion'' \<and>
   build_subject subject_key_env world0 ''suggest_dataset'' ''Question'' ''Contact from visitor'' False =
     Inr (''New dataset'', world0)"
  by (simp add: build_subject_def subject_key_env_def example_env_def example_asbool_def
      config_get_default_def config_get_str_def)

lemma build_subject_reads:
  assumes "config env' (''ckanext.'' @ v @ ''.subject'') = config env (''ckanext.'' @ v @ ''.subject'')"
    and "config env' ''ckanext.contact.add_timestamp_to_subject'' =
         config env ''ckanext.contact.add_timestamp_to_subject''"
    and "translate env' = translate env" "asbool env' = asbool env" "clock env' = clock env"
  shows "build_subject env' w v ct sd td = build_subject env w v ct sd td"
  unfolding build_subject_def config_get_str_def config_get_default_def
  by (simp only: assms)

text \<open>
  C7, amended: for every form variant \<open>v\<close>, the subject starts with the value of the
  configuration key \<open>ckanext.<v>.subject\<close>, or with the translation (\<open>toolkit._\<close>) of
  \<open>subject_default\<close> when that key is unset; no configuration key other than this one and
  \<open>ckanext.contact.add_timestamp_to_subject\<close> has any influence on the result.
\<close>

theorem build_subject_config_key:
  assumes "asbool env (config_get_default env ''ckanext.contact.add_timestamp_to_subject''
             (PyBool timestamp_default)) = Inr flag"
  shows "(\<exists>rest w'. build_subject env w v contact_type subject_default timestamp_default =
            Inr ((case config env (''ckanext.'' @ v @ ''.subject'') of
                    None \<Rightarrow> translate env subject_default | Some s \<Rightarrow> s) @ rest, w')) \<and>
         (\<forall>c'. c' (''ckanext.'' @ v @ ''.subject'') = config env (''ckanext.'' @ v @ ''.subject'') \<and>
               c' ''ckanext.contact.add_timestamp_to_subject'' =
                 config env ''ckanext.contact.add_timestamp_to_subject'' \<longrightarrow>
               build_subject (env\<lparr>config := c'\<rparr>) w v contact_type subject_default timestamp_default =
               build_subject env w v contact_type subject_default timestamp_default)"
proof
  show "\<exists>rest w'. build_subject env w v contact_type subject_default timestamp_default =
            Inr ((case config env (''ckanext.'' @ v @ ''.subject'') of
                    None \<Rightarrow> translate env subject_default | Some s \<Rightarrow> s) @ rest, w')"
    using assms by (simp add: build_subject_def Let_def config_get_str_def)
next
  show "\<forall>c'. c' (''ckanext.'' @ v @ ''.subject'') = config env (''ckanext.'' @ v @ ''.subject'') \<and>
               c' ''ckanext.contact.add_timestamp_to_subject'' =
                 config env ''ckanext.contact.add_timestamp_to_subject'' \<longrightarrow>
               build_subject (env\<lparr>config := c'\<rparr>) w v contact_type subject_default timestamp_default =
               build_subject env w v contact_type subject_default timestamp_default"
    by (intro allI impI build_subject_reads) simp_all
qed

theorem build_subject_config_key_witness:
  "asbool subject_key_env (config_get_default subject_key_env
      ''ckanext.contact.add_timestamp_to_subject'' (PyBool False)) = Inr False \<and>
   (\<exists>rest w'. build_subject subject_key_env world0 ''suggest_dataset'' ''Question''
                 ''Contact from visitor'' False = Inr (''New dataset'' @ rest, w')) \<and>
   (\<exists>rest w'. build_subject example_env world0 ''suggest_dataset'' ''Question''
                 ''Contact from visitor'' False = Inr (''Contact from visitor'' @ rest, w')) \<and>
   build_subject (example_env\<lparr>config := (config subject_key_env)
                    (''ckanext.suggest_dataset.subject'' := None)\<rparr>) world0
       ''suggest_dataset'' ''Question'' ''Contact from visitor'' False =
     build_subject example_env world0 ''suggest_dataset'' ''Question'' ''Contact from visitor'' False"
proof -
  have f1: "asbool subject_key_env (config_get_default subject_key_env
      ''ckanext.contact.add_timestamp_to_subject'' (PyBool False)) = Inr False"
    by (simp add: subject_key_env_def example_env_def example_asbool_def config_get_default_def)
  have f2: "asbool example_env (config_get_default example_env
      ''ckanext.contact.add_timestamp_to_subject'' (PyBool False)) = Inr False"
    by (simp add: example_env_def example_asbool_def config_get_default_def)
  note k1 = build_subject_config_key [OF f1, of world0 "''suggest_dataset''" "''Question''"
      "''Contact from visitor''"]
  note k2 = build_subject_config_key [OF f2, of world0 "''suggest_dataset''" "''Question''"
      "''Contact from visitor''"]
  have c1: "\<exists>rest w'. build_subject subject_key_env world0 ''suggest_dataset'' ''Question''
                 ''Contact from visitor'' False = Inr (''New dataset'' @ rest, w')"
    using conjunct1 [OF k1] by (simp add: subject_key_env_def example_env_def)
  have c2: "\<exists>rest w'. build_subject example_env world0 ''suggest_dataset'' ''Question''
                 ''Contact from visitor'' False = Inr (''Contact from visitor'' @ rest, w')"
    using conjunct1 [OF k2] by (simp add: example_env_def)
  have c3: "build_subject (example_env\<lparr>config := (config subject_key_env)
                    (''ckanext.suggest_dataset.subject'' := None)\<rparr>) world0
       ''suggest_dataset'' ''Question'' ''Contact from visitor'' False =
     build_subject example_env world0 ''suggest_dataset'' ''Question'' ''Contact from visitor'' False"
    using conjunct2 [OF k2, THEN spec,
        of "(config subject_key_env)(''ckanext.suggest_dataset.subject'' := None)"]
    by (simp add: subject_key_env_def example_env_def)
  from f1 c1 c2 c3 show ?thesis by blast
qed

lemma build_subject_no_timestamp:
  assumes "asbool env (config_get_default env ''ckanext.contact.add_timestamp_to_subject''
             (PyBool td)) = Inr False"
  shows "build_subject env w fv ct sd td =
           Inr (config_get_str env (''ckanext.'' @ fv @ ''.subject'') (translate env sd) @
                (if fv = ''contact'' then '' : '' @ ct else []), w)"
  using assms by (simp add: build_subject_def Let_def)

text \<open>
  C9: when the timestamp flag is false, \<open>build_subject\<close> returns the same subject for the
  same arguments and configuration, whatever the clock shows and however often it has
  been read.
\<close>

theorem build_subject_deterministic:
  assumes "asbool env (config_get_default env ''ckanext.contact.add_timestamp_to_subject''
             (PyBool timestamp_default)) = Inr False"
  shows "\<exists>s. build_subject env w1 form_variant contact_type subject_default timestamp_default =
               Inr (s, w1) \<and>
             build_subject (env\<lparr>clock := c2\<rparr>) w2 form_variant contact_type subject_default
               timestamp_default = Inr (s, w2)"
proof -
  let ?s = "config_get_str env (''ckanext.'' @ form_variant @ ''.subject'')
              (translate env subject_default) @
            (if form_variant = ''contact'' then '' : '' @ contact_type else [])"
  have first: "build_subject env w1 form_variant contact_type subject_default timestamp_default =
      Inr (?s, w1)"
    by (rule build_subject_no_timestamp [OF assms])
  have "asbool (env\<lparr>clock := c2\<rparr>) (config_get_default (env\<lparr>clock := c2\<rparr>)
          ''ckanext.contact.add_timestamp_to_subject'' (PyBool timestamp_default)) = Inr False"
    using assms by (simp add: config_get_default_def)
  from build_subject_no_timestamp [OF this]
  have second: "build_subject (env\<lparr>clock := c2\<rparr>) w2 form_variant contact_type subject_default
      timestamp_default = Inr (?s, w2)"
    by (simp add: config_get_str_def)
  from first second show ?thesis by blast
qed

theorem build_subject_deterministic_witness:
  "asbool example_env (config_get_default example_env
      ''ckanext.contact.add_timestamp_to_subject'' (PyBool False)) = Inr False \<and>
   (\<exists>s. build_subject example_env world0 ''contact'' ''Issue'' ''Contact from visitor'' False =
           Inr (s, world0) \<and>
         build_subject (example_env\<lparr>clock := (\<lambda>n. ''2031-01-01 00:00:00 UTC'')\<rparr>)
             (world0\<lparr>ticks := 7\<rparr>) ''contact'' ''Issue'' ''Contact from visitor'' False =
           Inr (s, world0\<lparr>ticks := 7\<rparr>))"
  using build_subject_deterministic [of example_env False world0 "''contact''" "''Issue''"
      "''Contact from visitor''" "(\<lambda>n. ''2031-01-01 00:00:00 UTC'')" "world0\<lparr>ticks := 7\<rparr>"]
  by (simp add: example_env_def example_asbool_def config_get_default_def)

subsection \<open>Normalising the submission\<close>

lemma add_pkg_url_other: "k \<noteq> ''pkg-url'' \<Longrightarrow> fst (add_pkg_url st) k = fst st k"
  by (simp add: add_pkg_url_def split: option.splits)

lemma add_pkg_url_lines:
  "snd (add_pkg_url st) =
     snd st @ (case fst st ''pkg-url'' of None \<Rightarrow> []
               | Some u \<Rightarrow> if u = [] then [] else [''  Dataset URL: '' @ u])"
  by (simp add: add_pkg_url_def split: option.splits)

lemma add_contact_type_other:
  "k \<noteq> ''contact_type'' \<Longrightarrow> fst (add_contact_type st) k = fst st k"
  by (simp add: add_contact_type_def)

lemma add_contact_type_value:
  "fst (add_contact_type st) ''contact_type'' =
     Some (case fst st ''contact_type'' of None \<Rightarrow> ''Question''
           | Some t \<Rightarrow> if t = [] then ''Question'' else t)"
  by (simp add: add_contact_type_def split: option.splits)

lemma add_contact_type_lines:
  "snd (add_contact_type st) =
     snd st @ (if fst st ''contact_type'' = None \<or> fst st ''contact_type'' = Some []
               then [''  Contact Type: Question''] else [])"
  by (simp add: add_contact_type_def)

lemma default_na_other: "k \<noteq> j \<Longrightarrow> default_na j d k = d k"
  by (simp add: default_na_def)

lemma default_na_value:
  "default_na k d k = Some (case d k of None \<Rightarrow> ''N/A'' | Some x \<Rightarrow> if x = [] then ''N/A'' else x)"
  by (simp add: default_na_def split: option.splits)

lemma variant_fields_suggest:
  assumes "fst st ''form_variant'' = Some ''suggest_dataset''" "fst st ''contact_type'' = Some t"
  shows "\<exists>d'. variant_fields st =
           Inr (d', snd st @
             [''  Title of Resource: '' @ (case fst st ''resource'' of None \<Rightarrow> ''N/A''
                         | Some x \<Rightarrow> if x = [] then ''N/A'' else x),
              ''  Who owns or maintains this resource? '' @
                (case fst st ''maintainer'' of None \<Rightarrow> ''N/A''
                         | Some x \<Rightarrow> if x = [] then ''N/A'' else x),
              ''  Link: '' @ (case fst st ''url'' of None \<Rightarrow> ''N/A''
                         | Some x \<Rightarrow> if x = [] then ''N/A'' else x)]) \<and>
         (\<forall>k \<in> set [''resource'', ''maintainer'', ''url''].
            d' k = Some (case fst st k of None \<Rightarrow> ''N/A''
                         | Some x \<Rightarrow> if x = [] then ''N/A'' else x)) \<and>
         d' ''contact_type'' = Some (if t = ''Both'' then ''Data and Application'' else t) \<and>
         (\<forall>k. k \<notin> set [''resource'', ''maintainer'', ''url'', ''contact_type''] \<longrightarrow>
              d' k = fst st k)"
proof -
  let ?d1 = "default_na ''url'' (default_na ''maintainer'' (default_na ''resource'' (fst st)))"
  let ?d2 = "if t = ''Both'' then ?d1(''contact_type'' \<mapsto> ''Data and Application'') else ?d1"
  have ct: "?d1 ''contact_type'' = Some t"
    using assms(2) by (simp add: default_na_other)
  have r: "?d2 ''resource'' = Some (case fst st ''resource'' of None \<Rightarrow> ''N/A''
                         | Some x \<Rightarrow> if x = [] then ''N/A'' else x)"
    by (simp add: default_na_other default_na_value)
  have m: "?d2 ''maintainer'' = Some (case fst st ''maintainer'' of None \<Rightarrow> ''N/A''
                         | Some x \<Rightarrow> if x = [] then ''N/A'' else x)"
    by (simp add: default_na_other default_na_value)
  have u: "?d2 ''url'' = Some (case fst st ''url'' of None \<Rightarrow> ''N/A''
                         | Some x \<Rightarrow> if x = [] then ''N/A'' else x)"
    by (simp add: default_na_other default_na_value)
  have run: "variant_fields st =
          Inr (?d2, snd st @
            [''  Title of Resource: '' @ (case fst st ''resource'' of None \<Rightarrow> ''N/A''
                         | Some x \<Rightarrow> if x = [] then ''N/A'' else x),
             ''  Who owns or maintains this resource? '' @
               (case fst st ''maintainer'' of None \<Rightarrow> ''N/A''
                         | Some x \<Rightarrow> if x = [] then ''N/A'' else x),
             ''  Link: '' @ (case fst st ''url'' of None \<Rightarrow> ''N/A''
                         | Some x \<Rightarrow> if x = [] then ''N/A'' else x)])"
  proof -
    have g1: "getitem (fst st) ''form_variant'' = Inr ''suggest_dataset''"
      using assms(1) by (simp add: getitem_def)
    have g2: "getitem ?d1 ''contact_type'' = Inr t"
      using ct by (simp add: getitem_def)
    have g3: "getitem ?d2 ''resource'' = Inr (case fst st ''resource'' of None \<Rightarrow> ''N/A''
                         | Some x \<Rightarrow> if x = [] then ''N/A'' else x)"
      using r by (simp only: getitem_def option.case)
    have g4: "getitem ?d2 ''maintainer'' = Inr (case fst st ''maintainer'' of None \<Rightarrow> ''N/A''
                         | Some x \<Rightarrow> if x = [] then ''N/A'' else x)"
      using m by (simp only: getitem_def option.case)
    have g5: "getitem ?d2 ''url'' = Inr (case fst st ''url'' of None \<Rightarrow> ''N/A''
                         | Some x \<Rightarrow> if x = [] then ''N/A'' else x)"
      using u by (simp only: getitem_def option.case)
    show ?thesis
      unfolding variant_fields_def
      by (simp only: g1 g2 g3 g4 g5 ebind_Inr Let_def simp_thms if_True)
  qed
  have c: "?d2 ''contact_type'' = Some (if t = ''Both'' then ''Data and Application'' else t)"
    using ct by simp
  have o: "\<forall>k. k \<notin> set [''resource'', ''maintainer'', ''url'', ''contact_type''] \<longrightarrow>
              ?d2 k = fst st k"
    by (simp add: default_na_other)
  have f: "\<forall>k \<in> set [''resource'', ''maintainer'', ''url''].
            ?d2 k = Some (case fst st k of None \<Rightarrow> ''N/A''
                         | Some x \<Rightarrow> if x = [] then ''N/A'' else x)"
    using r m u by simp
  from run f c o show ?thesis by blast
qed

lemma variant_fields_other:
  assumes "fst st ''form_variant'' = Some v" "v \<noteq> ''suggest_dataset''"
  shows "variant_fields st =
           Inr ((fst st)(''resource'' \<mapsto> [], ''maintainer'' \<mapsto> [], ''url'' \<mapsto> []), snd st)"
  using assms by (simp add: variant_fields_def getitem_def)

lemma normalise_steps:
  assumes "d ''form_variant'' = Some v" "d ''content'' = Some c" "d ''name'' = Some n"
    "d ''email'' = Some e"
  shows "normalise d =
           variant_fields (add_contact_type (add_pkg_url
             (if v = [] then d(''form_variant'' \<mapsto> ''contact'') else d,
              [c @ [CHR 0x0A], ''Sent by:'', ''  Name: '' @ n, ''  Email: '' @ e])))"
  using assms by (simp add: normalise_def getitem_def)

lemma before_variant_fields:
  fixes d :: data_dict
  defines "st \<equiv> \<lambda>v bp. add_contact_type (add_pkg_url
             (if v = [] then d(''form_variant'' \<mapsto> ''contact'') else d, bp))"
  assumes "d ''form_variant'' = Some v"
  shows "fst (st v bp) ''form_variant'' = Some (if v = [] then ''contact'' else v)"
    and "fst (st v bp) ''contact_type'' =
           Some (case d ''contact_type'' of None \<Rightarrow> ''Question''
                 | Some t \<Rightarrow> if t = [] then ''Question'' else t)"
    and "fst (st v bp) ''pkg-url'' = Some (case d ''pkg-url'' of None \<Rightarrow> [] | Some u \<Rightarrow> u)"
    and "k \<notin> set [''form_variant'', ''contact_type'', ''pkg-url''] \<Longrightarrow> fst (st v bp) k = d k"
    and "snd (st v bp) = bp @
           (case d ''pkg-url'' of None \<Rightarrow> []
            | Some u \<Rightarrow> if u = [] then [] else [''  Dataset URL: '' @ u]) @
           (if d ''contact_type'' = None \<or> d ''contact_type'' = Some []
            then [''  Contact Type: Question''] else [])"
  using assms(2)
  by (simp_all add: st_def add_contact_type_value add_contact_type_other add_pkg_url_other
      add_contact_type_lines add_pkg_url_lines)
     (simp_all add: add_pkg_url_def split: option.splits)

text \<open>
  C3: for a submission that has the keys composition reads (\<open>form_variant\<close> and the three
  required fields), normalisation succeeds, and: for the variant \<open>suggest_dataset\<close> each of
  \<open>resource\<close>, \<open>maintainer\<close>, \<open>url\<close> that is absent or empty becomes \<open>N/A\<close> (a supplied
  value is kept) and a contact type \<open>Both\<close> becomes \<open>Data and Application\<close>; for every
  other variant the three fields are the empty string.
\<close>

theorem normalise_variant_fields:
  assumes "d ''form_variant'' = Some v" "d ''content'' = Some c" "d ''name'' = Some n"
    "d ''email'' = Some e"
  shows "\<exists>d' bp. normalise d = Inr (d', bp) \<and>
           (v = ''suggest_dataset'' \<longrightarrow>
              (\<forall>k \<in> set [''resource'', ''maintainer'', ''url''].
                 d' k = Some (case d k of None \<Rightarrow> ''N/A''
                              | Some x \<Rightarrow> if x = [] then ''N/A'' else x)) \<and>
              (d ''contact_type'' = Some ''Both'' \<longrightarrow>
                 d' ''contact_type'' = Some ''Data and Application'')) \<and>
           (v \<noteq> ''suggest_dataset'' \<longrightarrow>
              d' ''resource'' = Some [] \<and> d' ''maintainer'' = Some [] \<and> d' ''url'' = Some [])"
proof -
  let ?bp = "[c @ [CHR 0x0A], ''Sent by:'', ''  Name: '' @ n, ''  Email: '' @ e]"
  let ?st = "add_contact_type (add_pkg_url
               (if v = [] then d(''form_variant'' \<mapsto> ''contact'') else d, ?bp))"
  note steps = normalise_steps [where d = d, OF assms]
  note pre = before_variant_fields [where d = d and v = v and bp = ?bp, OF assms(1)]
  show ?thesis
  proof (cases "v = ''suggest_dataset''")
    case True
    have fv: "fst ?st ''form_variant'' = Some ''suggest_dataset''"
      using pre(1) True by simp
    from variant_fields_suggest [OF fv pre(2)] obtain d' lines where
      run: "variant_fields ?st = Inr (d', lines)" and
      na: "\<forall>k \<in> set [''resource'', ''maintainer'', ''url''].
            d' k = Some (case fst ?st k of None \<Rightarrow> ''N/A''
                         | Some x \<Rightarrow> if x = [] then ''N/A'' else x)" and
      ct: "d' ''contact_type'' =
             Some (if (case d ''contact_type'' of None \<Rightarrow> ''Question''
                       | Some t \<Rightarrow> if t = [] then ''Question'' else t) = ''Both''
                   then ''Data and Application''
                   else (case d ''contact_type'' of None \<Rightarrow> ''Question''
                         | Some t \<Rightarrow> if t = [] then ''Question'' else t))"
      by blast
    have same: "fst ?st ''resource'' = d ''resource''" "fst ?st ''maintainer'' = d ''maintainer''"
      "fst ?st ''url'' = d ''url''"
      by (rule pre(4), simp)+
    have "\<forall>k \<in> set [''resource'', ''maintainer'', ''url''].
            d' k = Some (case d k of None \<Rightarrow> ''N/A''
                         | Some x \<Rightarrow> if x = [] then ''N/A'' else x)"
      using na same by simp
    moreover have "d ''contact_type'' = Some ''Both'' \<longrightarrow>
                   d' ''contact_type'' = Some ''Data and Application''"
      using ct by simp
    ultimately show ?thesis
      using True run steps by simp
  next
    case False
    then have "(if v = [] then ''contact'' else v) \<noteq> ''suggest_dataset''"
      by simp
    from variant_fields_other [OF pre(1) this]
    have "normalise d =
            Inr ((fst ?st)(''resource'' \<mapsto> [], ''maintainer'' \<mapsto> [], ''url'' \<mapsto> []), snd ?st)"
      using steps by simp
    then show ?thesis
      using False by simp
  qed
qed

theorem normalise_variant_fields_witness:
  "suggestion_form ''form_variant'' = Some ''suggest_dataset'' \<and>
   suggestion_form ''content'' = Some ''Hi'' \<and> suggestion_form ''name'' = Some ''A'' \<and>
   suggestion_form ''email'' = Some ''a@b.com'' \<and>
   (\<exists>d' bp. normalise suggestion_form = Inr (d', bp) \<and>
      d' ''resource'' = Some ''N/A'' \<and> d' ''maintainer'' = Some ''N/A'' \<and>
      d' ''url'' = Some ''https://example.org/x'' \<and>
      d' ''contact_type'' = Some ''Data and Application'') \<and>
   example_form ''form_variant'' = Some [] \<and>
   (\<exists>d' bp. normalise example_form = Inr (d', bp) \<and>
      d' ''resource'' = Some [] \<and> d' ''maintainer'' = Some [] \<and> d' ''url'' = Some [])"
  using normalise_variant_fields [of suggestion_form "''suggest_dataset''" "''Hi''" "''A''" "''a@b.com''"]
    normalise_variant_fields [of example_form "[]" "''Hi''" "''A''" "''a@b.com''"]
  by (simp add: suggestion_form_def example_form_def)

text \<open>
  C8: when \<open>contact_type\<close> is absent or empty it is set to \<open>Question\<close> and the body parts
  after the content hold exactly one \<open>Contact Type\<close> line, showing \<open>Question\<close>; when it
  is supplied and non-empty the body parts after the content hold no such line. (The
  first part is the user's content, which may hold any text.)
\<close>

theorem normalise_contact_type_line:
  assumes "d ''form_variant'' = Some v" "d ''content'' = Some c" "d ''name'' = Some n"
    "d ''email'' = Some e"
  shows "\<exists>d' bp. normalise d = Inr (d', bp) \<and>
           (d ''contact_type'' = None \<or> d ''contact_type'' = Some [] \<longrightarrow>
              d' ''contact_type'' = Some ''Question'' \<and>
              filter (\<lambda>l. take 16 l = ''  Contact Type: '') (tl bp) = [''  Contact Type: Question'']) \<and>
           (\<forall>t. d ''contact_type'' = Some t \<and> t \<noteq> [] \<longrightarrow>
              filter (\<lambda>l. take 16 l = ''  Contact Type: '') (tl bp) = [])"
proof -
  let ?bp = "[c @ [CHR 0x0A], ''Sent by:'', ''  Name: '' @ n, ''  Email: '' @ e]"
  let ?st = "add_contact_type (add_pkg_url
               (if v = [] then d(''form_variant'' \<mapsto> ''contact'') else d, ?bp))"
  let ?ct = "case d ''contact_type'' of None \<Rightarrow> ''Question''
             | Some t \<Rightarrow> if t = [] then ''Question'' else t"
  let ?is_ct = "\<lambda>l. take 16 l = ''  Contact Type: ''"
  note steps = normalise_steps [where d = d, OF assms]
  note pre = before_variant_fields [where d = d and v = v and bp = ?bp, OF assms(1)]
  have lines: "filter ?is_ct (tl (snd ?st)) =
      (if d ''contact_type'' = None \<or> d ''contact_type'' = Some []
       then [''  Contact Type: Question''] else [])"
    unfolding pre(5) by (simp split: option.splits)
  have "\<exists>d' more. normalise d = Inr (d', snd ?st @ more) \<and> filter ?is_ct more = [] \<and>
          d' ''contact_type'' = Some (if v = ''suggest_dataset'' \<and> ?ct = ''Both''
                                      then ''Data and Application'' else ?ct)"
  proof (cases "v = ''suggest_dataset''")
    case True
    have fv: "fst ?st ''form_variant'' = Some ''suggest_dataset''"
      using pre(1) True by simp
    from variant_fields_suggest [OF fv pre(2)] True steps show ?thesis
      by auto
  next
    case False
    then have "(if v = [] then ''contact'' else v) \<noteq> ''suggest_dataset''"
      by simp
    from variant_fields_other [OF pre(1) this]
    have "normalise d =
            Inr ((fst ?st)(''resource'' \<mapsto> [], ''maintainer'' \<mapsto> [], ''url'' \<mapsto> []), snd ?st @ [])"
      using steps by simp
    moreover have "((fst ?st)(''resource'' \<mapsto> [], ''maintainer'' \<mapsto> [], ''url'' \<mapsto> []))
        ''contact_type'' = Some ?ct"
      using pre(2) by simp
    ultimately show ?thesis
      using False by (intro exI conjI) (assumption | simp)+
  qed
  then obtain d' more where
    run: "normalise d = Inr (d', snd ?st @ more)" and more: "filter ?is_ct more = []" and
    ct: "d' ''contact_type'' = Some (if v = ''suggest_dataset'' \<and> ?ct = ''Both''
                                      then ''Data and Application'' else ?ct)"
    by blast
  have ne: "snd ?st \<noteq> []"
    unfolding pre(5) by simp
  have "filter ?is_ct (tl (snd ?st @ more)) =
      (if d ''contact_type'' = None \<or> d ''contact_type'' = Some []
       then [''  Contact Type: Question''] else [])"
    using ne lines more by (simp del: filter.simps)
  moreover have "d ''contact_type'' = None \<or> d ''contact_type'' = Some [] \<longrightarrow>
      d' ''contact_type'' = Some ''Question''"
    using ct by auto
  ultimately show ?thesis
    using run by auto
qed

theorem normalise_contact_type_line_witness:
  "example_form ''form_variant'' = Some [] \<and>
   example_form ''content'' = Some ''Hi'' \<and> example_form ''name'' = Some ''A'' \<and>
   example_form ''email'' = Some ''a@b.com'' \<and> example_form ''contact_type'' = None \<and>
   (\<exists>d' bp. normalise example_form = Inr (d', bp) \<and>
      d' ''contact_type'' = Some ''Question'' \<and>
      filter (\<lambda>l. take 16 l = ''  Contact Type: '') (tl bp) = [''  Contact Type: Question'']) \<and>
   suggestion_form ''contact_type'' = Some ''Both'' \<and>
   (\<exists>d' bp. normalise suggestion_form = Inr (d', bp) \<and>
      filter (\<lambda>l. take 16 l = ''  Contact Type: '') (tl bp) = [])"
  using normalise_contact_type_line [of example_form "[]" "''Hi''" "''A''" "''a@b.com''"]
    normalise_contact_type_line [of suggestion_form "''suggest_dataset''" "''Hi''" "''A''" "''a@b.com''"]
  by (simp add: suggestion_form_def example_form_def)

subsection \<open>A missing form variant\<close>

lemma validate_ok:
  assumes "d ''email'' = Some e" "e \<noteq> []" "d ''name'' = Some n" "n \<noteq> []"
    "d ''content'' = Some c" "c \<noteq> []"
    and "check_recaptcha env (d ''g-recaptcha-response'')
           (config env ''ckanext.contact.recaptcha_v3_action'') = Inr u"
  shows "validate env w d =
           Inr (([], [], None),
                w\<lparr>captcha_calls := captcha_calls w @
                   [(d ''g-recaptcha-response'', config env ''ckanext.contact.recaptcha_v3_action'')]\<rparr>)"
  using assms(7)
  by (simp add: validate_def check_fields_present [OF assms(1-6)] Let_def)

lemma normalise_no_form_variant:
  "d ''form_variant'' = None \<Longrightarrow> normalise d = Inl (KeyError ''form_variant'')"
  by (simp add: normalise_def getitem_def)

lemma normalise_empty_form_variant:
  assumes "d ''form_variant'' = Some []" "d ''content'' = Some c" "d ''name'' = Some n"
    "d ''email'' = Some e"
  shows "\<exists>d' bp. normalise d = Inr (d', bp) \<and> d' ''form_variant'' = Some ''contact''"
proof -
  let ?bp = "[c @ [CHR 0x0A], ''Sent by:'', ''  Name: '' @ n, ''  Email: '' @ e]"
  let ?st = "add_contact_type (add_pkg_url (d(''form_variant'' \<mapsto> ''contact''), ?bp))"
  have steps: "normalise d = variant_fields ?st"
    using normalise_steps [where d = d, OF assms] by simp
  have fv: "fst ?st ''form_variant'' = Some ''contact''"
    using before_variant_fields(1) [where d = d and v = "[]" and bp = ?bp, OF assms(1)] by simp
  have "variant_fields ?st =
          Inr ((fst ?st)(''resource'' \<mapsto> [], ''maintainer'' \<mapsto> [], ''url'' \<mapsto> []), snd ?st)"
    by (rule variant_fields_other [OF fv]) simp
  with steps fv show ?thesis by simp
qed

text \<open>
  C10: a submission whose required fields are present and non-empty and whose recaptcha
  check passes, but which has no \<open>form_variant\<close> key, makes \<open>submit\<close> raise
  \<open>KeyError('form_variant')\<close> (line 96 indexes the dict); no outcome is returned. The
  default \<open>contact\<close> is applied when the key is present with the empty string.
\<close>

theorem submit_form_variant_missing:
  assumes "d ''email'' = Some e" "e \<noteq> []" "d ''name'' = Some n" "n \<noteq> []"
    "d ''content'' = Some c" "c \<noteq> []"
    and "check_recaptcha env (d ''g-recaptcha-response'')
           (config env ''ckanext.contact.recaptcha_v3_action'') = Inr u"
    and "d ''form_variant'' = None"
  shows "submit env w d = Inl (KeyError ''form_variant'') \<and>
         (\<exists>d' bp. normalise (d(''form_variant'' \<mapsto> [])) = Inr (d', bp) \<and>
                   d' ''form_variant'' = Some ''contact'')"
proof
  show "submit env w d = Inl (KeyError ''form_variant'')"
    by (simp add: submit_def validate_ok [OF assms(1-7)] prepare_def
        normalise_no_form_variant [where d = d, OF assms(8)])
next
  show "\<exists>d' bp. normalise (d(''form_variant'' \<mapsto> [])) = Inr (d', bp) \<and>
                 d' ''form_variant'' = Some ''contact''"
    by (rule normalise_empty_form_variant [where c = c and n = n and e = e])
       (simp_all add: assms)
qed

theorem submit_form_variant_missing_witness:
  "(example_form(''form_variant'' := None)) ''email'' = Some ''a@b.com'' \<and> ''a@b.com'' \<noteq> [] \<and>
   (example_form(''form_variant'' := None)) ''name'' = Some ''A'' \<and> ''A'' \<noteq> [] \<and>
   (example_form(''form_variant'' := None)) ''content'' = Some ''Hi'' \<and> ''Hi'' \<noteq> [] \<and>
   check_recaptcha example_env ((example_form(''form_variant'' := None)) ''g-recaptcha-response'')
     (config example_env ''ckanext.contact.recaptcha_v3_action'') = Inr () \<and>
   (example_form(''form_variant'' := None)) ''form_variant'' = None \<and>
   submit example_env world0 (example_form(''form_variant'' := None)) =
     Inl (KeyError ''form_variant'')"
  using submit_form_variant_missing [of "example_form(''form_variant'' := None)" "''a@b.com''"
      "''A''" "''Hi''" example_env "()" world0]
  by (simp add: example_form_def example_env_def)

subsection \<open>The recipient\<close>

lemma ebind_eq_Inr: "ebind m f = Inr y \<longleftrightarrow> (\<exists>x. m = Inr x \<and> f x = Inr y)"
  by (cases m) simp_all

lemma getitem_eq_Inr: "getitem d k = Inr v \<longleftrightarrow> d k = Some v"
  by (simp add: getitem_def split: option.splits)


lemma reroute_to_contact:
  assumes "d ''contact_dest'' = Some dest" "dest \<noteq> ''data-hub-support''"
    "d ''pkg-id'' = Some pid" "pid \<noteq> []" "package_show env pid = Inr pkg"
    "pkg ''data_contact_email'' = Some contact" "truthy contact"
  shows "reroute env mail d =
           Inr (mail\<lparr>headers := (headers mail)(''cc'' \<mapsto> recipient_email mail),
                     recipient_email := contact\<rparr>, d)"
  using assms by (simp add: reroute_def getitem_def)







lemma normalise_example_form:
  "normalise example_form =
     Inr (example_form(''form_variant'' \<mapsto> ''contact'', ''pkg-url'' \<mapsto> [],
                       ''contact_type'' \<mapsto> ''Question'',
                       ''resource'' \<mapsto> [], ''maintainer'' \<mapsto> [], ''url'' \<mapsto> []),
          [''Hi'' @ [CHR 0x0A], ''Sent by:'', ''  Name: A'', ''  Email: a@b.com'',
           ''  Contact Type: Question''])"
  by (simp add: normalise_def getitem_def add_pkg_url_def add_contact_type_def variant_fields_def
      example_form_def)



subsection \<open>A failing mailer\<close>

lemma build_subject2_deliveries:
  "build_subject2 env w fv ct = Inr (s, w') \<Longrightarrow> deliveries w' = deliveries w"
  by (auto simp add: build_subject2_def build_subject_def ebind_eq_Inr Let_def split: if_splits)

lemma compose_deliveries:
  assumes "compose env w d bp = Inr (mail, w1)"
  shows "deliveries w1 = deliveries w"
proof -
  from assms obtain fv ct s1 wa s2 wb where
    a: "build_subject2 env w fv ct = Inr (s1, wa)" and
    b: "build_subject2 env (wa\<lparr>ticks := Suc (ticks wa)\<rparr>) fv ct = Inr (s2, wb)" and
    c: "w1 = wb"
    by (auto simp add: compose_def ebind_eq_Inr Let_def split: prod.splits)
  from build_subject2_deliveries [OF a] build_subject2_deliveries [OF b] c
  show ?thesis by simp
qed

lemma prepare_deliveries:
  assumes "prepare env w d = Inr (mail, d', w2)"
  shows "deliveries w2 = deliveries w"
proof -
  from assms obtain d1 bp m1 where "compose env w d1 bp = Inr (m1, w2)"
    by (auto simp add: prepare_def ebind_eq_Inr split: prod.splits)
  then show ?thesis by (rule compose_deliveries)
qed

text \<open>
  C5: for a submission that passes validation and the recaptcha check and for which
  lines 96 to 179 produce a message, if the mailer raises \<open>MailerException\<close> or
  \<open>socket.error\<close>, then \<open>submit\<close> raises nothing and returns \<open>success = False\<close>, empty
  \<open>errors\<close> and no \<open>recaptcha_error\<close>. The deliveries recorded afterwards are those
  recorded before and this one attempt: the send is not repeated.
\<close>

theorem submit_delivery_failure:
  assumes "d ''email'' = Some e" "e \<noteq> []" "d ''name'' = Some n" "n \<noteq> []"
    "d ''content'' = Some c" "c \<noteq> []"
    and "check_recaptcha env (d ''g-recaptcha-response'')
           (config env ''ckanext.contact.recaptcha_v3_action'') = Inr u"
    and "prepare env (w\<lparr>captcha_calls := captcha_calls w @
           [(d ''g-recaptcha-response'', config env ''ckanext.contact.recaptcha_v3_action'')]\<rparr>) d =
           Inr (mail, d', w2)"
    and "mail_recipient env mail = Inl (MailerException m) \<or>
         mail_recipient env mail = Inl (SocketError m)"
  shows "submit env w d =
           Inr (\<lparr>success = False, data = d', errors = [], error_summary = [],
                 recaptcha_error = None\<rparr>,
                w2\<lparr>deliveries := deliveries w @ [mail]\<rparr>)"
proof -
  have del: "deliveries w2 = deliveries w"
    using prepare_deliveries [OF assms(8)] by simp
  have "deliver env w2 mail = Inr (False, w2\<lparr>deliveries := deliveries w2 @ [mail]\<rparr>)"
    using assms(9) by (auto simp add: deliver_def)
  then show ?thesis
    by (simp add: submit_def validate_ok [OF assms(1-7)] assms(8) del)
qed

lemma prepare_example_failing:
  "\<exists>mail d'. prepare failing_mail_env (world0\<lparr>captcha_calls := [(None, None)]\<rparr>) example_form =
      Inr (mail, d', world0\<lparr>captcha_calls := [(None, None)], ticks := 1\<rparr>)"
  unfolding prepare_def normalise_example_form ebind_Inr prod.case
  by (simp add: compose_def getitem_def reroute_def
      build_subject2_def build_subject_def config_get_str_def config_get_default_def
      example_asbool_def failing_mail_env_def example_env_def example_form_def world0_def)

theorem submit_delivery_failure_witness:
  "\<exists>mail d' w2.
     example_form ''email'' = Some ''a@b.com'' \<and> example_form ''name'' = Some ''A'' \<and>
     example_form ''content'' = Some ''Hi'' \<and>
     check_recaptcha failing_mail_env (example_form ''g-recaptcha-response'')
       (config failing_mail_env ''ckanext.contact.recaptcha_v3_action'') = Inr () \<and>
     prepare failing_mail_env (world0\<lparr>captcha_calls := [(None, None)]\<rparr>) example_form =
       Inr (mail, d', w2) \<and>
     mail_recipient failing_mail_env mail = Inl (MailerException ''connection refused'') \<and>
     submit failing_mail_env world0 example_form =
       Inr (\<lparr>success = False, data = d', errors = [], error_summary = [],
             recaptcha_error = None\<rparr>, w2\<lparr>deliveries := [mail]\<rparr>)"
proof -
  from prepare_example_failing obtain mail d' where
    p: "prepare failing_mail_env (world0\<lparr>captcha_calls := [(None, None)]\<rparr>) example_form =
      Inr (mail, d', world0\<lparr>captcha_calls := [(None, None)], ticks := 1\<rparr>)"
    by blast
  have f: "example_form ''email'' = Some ''a@b.com''" "example_form ''name'' = Some ''A''"
    "example_form ''content'' = Some ''Hi''" "example_form ''g-recaptcha-response'' = None"
    by (simp_all add: example_form_def)
  have k: "config failing_mail_env ''ckanext.contact.recaptcha_v3_action'' = None"
    by (simp add: failing_mail_env_def example_env_def)
  have r: "check_recaptcha failing_mail_env (example_form ''g-recaptcha-response'')
       (config failing_mail_env ''ckanext.contact.recaptcha_v3_action'') = Inr ()"
    by (simp add: failing_mail_env_def example_env_def)
  have m: "mail_recipient failing_mail_env mail = Inl (MailerException ''connection refused'')"
    by (simp add: failing_mail_env_def)
  have p': "prepare failing_mail_env (world0\<lparr>captcha_calls := captcha_calls world0 @
           [(example_form ''g-recaptcha-response'',
             config failing_mail_env ''ckanext.contact.recaptcha_v3_action'')]\<rparr>) example_form =
      Inr (mail, d', world0\<lparr>captcha_calls := [(None, None)], ticks := 1\<rparr>)"
    using p by (simp add: f k world0_def)
  have "submit failing_mail_env world0 example_form =
       Inr (\<lparr>success = False, data = d', errors = [], error_summary = [],
             recaptcha_error = None\<rparr>,
            world0\<lparr>captcha_calls := [(None, None)], ticks := 1,
                   deliveries := deliveries world0 @ [mail]\<rparr>)"
    using submit_delivery_failure [where d = example_form and env = failing_mail_env
        and w = world0 and m = "''connection refused''", OF f(1) _ f(2) _ f(3) _ r p' disjI1 [OF m]]
    by simp
  then have "submit failing_mail_env world0 example_form =
       Inr (\<lparr>success = False, data = d', errors = [], error_summary = [],
             recaptcha_error = None\<rparr>,
            (world0\<lparr>captcha_calls := [(None, None)], ticks := 1\<rparr>)\<lparr>deliveries := [mail]\<rparr>)"
    by (simp add: world0_def)
  with f r p m show ?thesis
    by blast
qed


end
